theory Spec2Isabelle
  imports Complex_Main "HOL-Library.AList"
begin

section \<open>Values of the host language\<close>

text \<open>
  The server exchanges JSON-like values. A number is an exact rational (the rounding of
  IEEE doubles is not modelled) or one of the two infinite numbers, \<open>JInfinity True\<close>
  the positive one; the number \<open>NaN\<close> is never stored in an object. A string is a
  list of characters with codes below 256, each standing for the code unit of the same
  value; strings with other code units are outside the model. An object is the list of its
  own enumerable properties in the order in which the language lists them: first the keys
  that are array indices, in increasing order, then the other keys in the order of their
  creation. Reading a property that an object does not have gives \<open>undefined\<close>;
  properties inherited from the prototype are not modelled (no field or argument name that
  the program reads is a property of \<open>Object.prototype\<close>).
\<close>

datatype jsval =
    JUndefined
  | JNull
  | JBool bool
  | JNum rat
  | JInfinity bool
  | JStr string
  | JArr "jsval list"
  | JObj "(string \<times> jsval) list"

type_synonym obj = "(string \<times> jsval) list"

definition obj_get :: "obj \<Rightarrow> string \<Rightarrow> jsval" where
  "obj_get ob k = (case map_of ob k of None \<Rightarrow> JUndefined | Some v \<Rightarrow> v)"

definition obj_has :: "obj \<Rightarrow> string \<Rightarrow> bool" where
  "obj_has ob k = (map_of ob k \<noteq> None)"

text \<open>The rest pattern \<open>const { id, ...data } = args\<close>: every own property but \<open>id\<close>.\<close>

definition obj_rest :: "string \<Rightarrow> obj \<Rightarrow> obj" where
  "obj_rest k ob = filter (\<lambda>p. fst p \<noteq> k) ob"

subsection \<open>Assignment to a property\<close>

definition is_digit :: "char \<Rightarrow> bool" where
  "is_digit c = (48 \<le> (of_char c :: nat) \<and> (of_char c :: nat) \<le> 57)"

definition digits_value :: "string \<Rightarrow> nat" where
  "digits_value s = foldl (\<lambda>a c. 10 * a + (of_char c - 48)) 0 s"

text \<open>
  An array index is the decimal numeral, without a leading zero, of an integer from 0 to
  4294967294.
\<close>

definition is_array_index :: "string \<Rightarrow> bool" where
  "is_array_index k =
     (k \<noteq> [] \<and> list_all is_digit k \<and> (k = ''0'' \<or> take 1 k \<noteq> ''0'')
      \<and> digits_value k < 4294967295)"

fun insert_index :: "string \<Rightarrow> 'v \<Rightarrow> (string \<times> 'v) list \<Rightarrow> (string \<times> 'v) list" where
  "insert_index k v [] = [(k, v)]"
| "insert_index k v (p # ps) =
     (if is_array_index (fst p) \<and> digits_value (fst p) < digits_value k
      then p # insert_index k v ps
      else (k, v) # p # ps)"

text \<open>
  The assignment \<open>o[k] = v\<close> on an object that was created by the literal \<open>{}\<close>.
  For the key \<open>__proto__\<close> it runs the setter inherited from \<open>Object.prototype\<close>,
  which creates no own property. For a key the object has, the value is replaced in place.
  A new array index is put at its place among the array indices, and any other new key
  comes last.
\<close>

definition js_assign :: "string \<Rightarrow> 'v \<Rightarrow> (string \<times> 'v) list \<Rightarrow> (string \<times> 'v) list" where
  "js_assign k v ob =
     (if k = ''__proto__'' then ob
      else if map_of ob k \<noteq> None then AList.update k v ob
      else if is_array_index k then insert_index k v ob
      else ob @ [(k, v)])"

subsection \<open>String methods\<close>

definition startsWith :: "string \<Rightarrow> string \<Rightarrow> bool" where
  "startsWith s p = (take (length p) s = p)"

definition endsWith :: "string \<Rightarrow> string \<Rightarrow> bool" where
  "endsWith s p = (length p \<le> length s \<and> drop (length s - length p) s = p)"

definition str_includes :: "string \<Rightarrow> string \<Rightarrow> bool" where
  "str_includes s p =
     (length p \<le> length s \<and>
      list_ex (\<lambda>i. take (length p) (drop i s) = p) [0..<Suc (length s - length p)])"

text \<open>
  The upper-case letters below code 256 are \<open>A\<close> to \<open>Z\<close> and the codes 192 to
  222 but 215; each has its lower-case letter 32 places further on.
\<close>

definition lower_char :: "char \<Rightarrow> char" where
  "lower_char c =
     (let n = (of_char c :: nat)
      in if (65 \<le> n \<and> n \<le> 90) \<or> (192 \<le> n \<and> n \<le> 222 \<and> n \<noteq> 215)
         then char_of (n + 32) else c)"

definition toLowerCase :: "string \<Rightarrow> string" where
  "toLowerCase s = map lower_char s"

section \<open>The validation library\<close>

text \<open>
  The schemas the program builds with the zod library, restricted to the combinators the
  program uses. \<open>describe\<close> only attaches documentation to a schema and is left out.
  None of these schemas transforms a value, so parsing a single value is a test.
  The two string formats (\<open>email()\<close>, \<open>url()\<close>) are library code, and whether
  the number schema admits the infinite numbers depends on the version of the library
  (version 3 does, version 4 does not). These are parameters of the model and every
  theorem below holds for each choice of them.
\<close>

datatype numcheck = ZPositive | ZNonnegative | ZInt | ZMin rat | ZMax rat

datatype strcheck = ZEmail | ZUrl

datatype zschema =
    ZString "strcheck list"
  | ZNumber "numcheck list"
  | ZBoolean
  | ZEnum "string list"
  | ZUnion "zschema list"
  | ZOptional zschema

record formats =
  is_email :: "string \<Rightarrow> bool"
  is_url :: "string \<Rightarrow> bool"
  infinite_numbers :: bool

fun numcheck_ok :: "rat \<Rightarrow> numcheck \<Rightarrow> bool" where
  "numcheck_ok r ZPositive = (0 < r)"
| "numcheck_ok r ZNonnegative = (0 \<le> r)"
| "numcheck_ok r ZInt = (of_int \<lfloor>r\<rfloor> = r)"
| "numcheck_ok r (ZMin m) = (m \<le> r)"
| "numcheck_ok r (ZMax m) = (r \<le> m)"

text \<open>The checks on an infinite number: it is no integer, and it is above or below every bound.\<close>

fun infcheck_ok :: "bool \<Rightarrow> numcheck \<Rightarrow> bool" where
  "infcheck_ok pos ZPositive = pos"
| "infcheck_ok pos ZNonnegative = pos"
| "infcheck_ok pos ZInt = False"
| "infcheck_ok pos (ZMin m) = pos"
| "infcheck_ok pos (ZMax m) = (\<not> pos)"

fun strcheck_ok :: "formats \<Rightarrow> string \<Rightarrow> strcheck \<Rightarrow> bool" where
  "strcheck_ok fm s ZEmail = is_email fm s"
| "strcheck_ok fm s ZUrl = is_url fm s"

fun zaccepts :: "formats \<Rightarrow> zschema \<Rightarrow> jsval \<Rightarrow> bool" where
  "zaccepts fm (ZString cs) v = (case v of JStr s \<Rightarrow> list_all (strcheck_ok fm s) cs | _ \<Rightarrow> False)"
| "zaccepts fm (ZNumber cs) v =
     (case v of
        JNum r \<Rightarrow> list_all (numcheck_ok r) cs
      | JInfinity pos \<Rightarrow> infinite_numbers fm \<and> list_all (infcheck_ok pos) cs
      | _ \<Rightarrow> False)"
| "zaccepts fm ZBoolean v = (case v of JBool b \<Rightarrow> True | _ \<Rightarrow> False)"
| "zaccepts fm (ZEnum vs) v = (case v of JStr s \<Rightarrow> s \<in> set vs | _ \<Rightarrow> False)"
| "zaccepts fm (ZUnion ss) v = list_ex (\<lambda>s. zaccepts fm s v) ss"
| "zaccepts fm (ZOptional s) v = (v = JUndefined \<or> zaccepts fm s v)"

text \<open>
  \<open>z.object(shape).parse(data)\<close>. Every key of the shape is checked against the
  property of that name (or \<open>undefined\<close>). If a check fails the parse fails with the
  paths of the failing keys, in the order of the shape. Otherwise the result has, in the
  order of the shape, the keys of the shape that the data has; a property of the data
  whose key is not in the shape is dropped without an issue, which is the library's
  default for an object schema that is not made strict.
\<close>

type_synonym shape = "(string \<times> zschema) list"

definition zobject_parse :: "formats \<Rightarrow> shape \<Rightarrow> obj \<Rightarrow> string list + obj" where
  "zobject_parse fm sh data =
     (let issues = map fst (filter (\<lambda>(k, s). \<not> zaccepts fm s (obj_get data k)) sh)
      in if issues \<noteq> [] then Inl issues
         else Inr (map (\<lambda>(k, s). (k, obj_get data k)) (filter (\<lambda>(k, s). obj_has data k) sh)))"

section \<open>The object type registry\<close>

datatype write_op = POST | PUT | PATCH | DELETE

record PeeringDBObjectConfig =
  endpoint :: string
  name :: string
  description :: string
  requiredFields :: "string list"
  optionalFields :: "string list"
  relationships :: "string list"
  writeOperations :: "write_op list"

type_synonym registry = "(string \<times> PeeringDBObjectConfig) list"

definition PEERINGDB_OBJECTS :: registry where
  "PEERINGDB_OBJECTS =
  [ (''org'', \<lparr> endpoint = ''org'', name = ''Organization'',
       description = ''Organizations in PeeringDB'',
       requiredFields = [''name''],
       optionalFields = [''website'', ''notes'', ''address1'', ''address2'', ''city'', ''state'',
         ''zipcode'', ''country'', ''latitude'', ''longitude'', ''phone'', ''email''],
       relationships = [''net_set'', ''fac_set'', ''ix_set''],
       writeOperations = [POST, PUT, PATCH, DELETE] \<rparr>),
    (''fac'', \<lparr> endpoint = ''fac'', name = ''Facility'',
       description = ''Colocation facilities and data centers'',
       requiredFields = [''name'', ''org_id''],
       optionalFields = [''website'', ''clli'', ''rencode'', ''npanxx'', ''notes'', ''address1'',
         ''address2'', ''city'', ''state'', ''zipcode'', ''country'', ''latitude'',
         ''longitude'', ''region_continent'', ''tech_email'', ''tech_phone'',
         ''sales_email'', ''sales_phone''],
       relationships = [''netfac_set'', ''ixfac_set''],
       writeOperations = [POST, PUT, PATCH, DELETE] \<rparr>),
    (''ix'', \<lparr> endpoint = ''ix'', name = ''Internet Exchange'',
       description = ''Internet Exchange Points'',
       requiredFields = [''name'', ''org_id''],
       optionalFields = [''name_long'', ''city'', ''country'', ''region_continent'', ''media'',
         ''notes'', ''proto_unicast'', ''proto_multicast'', ''proto_ipv6'',
         ''website'', ''url_stats'', ''tech_email'', ''tech_phone'', ''policy_email'',
         ''policy_phone'', ''sales_email'', ''sales_phone''],
       relationships = [''ixlan_set'', ''ixfac_set'', ''netixlan_set''],
       writeOperations = [POST, PUT, PATCH, DELETE] \<rparr>),
    (''net'', \<lparr> endpoint = ''net'', name = ''Network'',
       description = ''Autonomous Systems and Networks'',
       requiredFields = [''name'', ''org_id'', ''asn''],
       optionalFields = [''aka'', ''name_long'', ''website'', ''irr_as_set'', ''looking_glass'',
         ''route_server'', ''notes'', ''notes_private'', ''info_type'', ''info_prefixes4'',
         ''info_prefixes6'', ''info_traffic'', ''info_ratio'', ''info_scope'',
         ''info_unicast'', ''info_multicast'', ''info_ipv6'', ''policy_url'',
         ''policy_general'', ''policy_locations'', ''policy_ratio'', ''policy_contracts''],
       relationships = [''netfac_set'', ''netixlan_set'', ''poc_set''],
       writeOperations = [POST, PUT, PATCH, DELETE] \<rparr>),
    (''poc'', \<lparr> endpoint = ''poc'', name = ''Point of Contact'',
       description = ''Contact information for networks'',
       requiredFields = [''net_id'', ''role'', ''name'', ''email''],
       optionalFields = [''phone'', ''url'', ''visible''],
       relationships = [],
       writeOperations = [POST, PUT, PATCH, DELETE] \<rparr>),
    (''ixlan'', \<lparr> endpoint = ''ixlan'', name = ''IX LAN'',
       description = ''Internet Exchange LAN details'',
       requiredFields = [''ix_id'', ''name''],
       optionalFields = [''descr'', ''mtu'', ''vlan'', ''dot1q_support'', ''rs_asn''],
       relationships = [''ixpfx_set'', ''netixlan_set''],
       writeOperations = [POST, PUT, PATCH, DELETE] \<rparr>),
    (''ixpfx'', \<lparr> endpoint = ''ixpfx'', name = ''IX Prefix'',
       description = ''IP prefixes announced at Internet Exchanges'',
       requiredFields = [''ixlan_id'', ''prefix''],
       optionalFields = [''protocol''],
       relationships = [],
       writeOperations = [POST, PUT, PATCH, DELETE] \<rparr>),
    (''netixlan'', \<lparr> endpoint = ''netixlan'', name = ''Network IX LAN'',
       description = ''Network connections to Internet Exchange LANs'',
       requiredFields = [''net_id'', ''ixlan_id''],
       optionalFields = [''ipaddr4'', ''ipaddr6'', ''is_rs_peer'', ''speed'', ''asn'',
         ''operational''],
       relationships = [],
       writeOperations = [POST, PUT, PATCH, DELETE] \<rparr>),
    (''netfac'', \<lparr> endpoint = ''netfac'', name = ''Network Facility'',
       description = ''Network presence at facilities'',
       requiredFields = [''net_id'', ''fac_id''],
       optionalFields = [''local_asn'', ''avail_sonet'', ''avail_ethernet'', ''avail_atm''],
       relationships = [],
       writeOperations = [POST, PUT, PATCH, DELETE] \<rparr>) ]"

definition VALID_QUERY_MODIFIERS :: "string list" where
  "VALID_QUERY_MODIFIERS =
     [''contains'', ''startswith'', ''lt'', ''lte'', ''gt'', ''gte'', ''in'']"

definition VALID_QUERY_PARAMS :: "string list" where
  "VALID_QUERY_PARAMS = [''limit'', ''skip'', ''depth'', ''fields'', ''since'']"

text \<open>
  The functions below take the registry as an argument, so that a property can be stated
  for every registry; the program always passes \<open>PEERINGDB_OBJECTS\<close>.
\<close>

definition getObjectTypes :: "registry \<Rightarrow> string list" where
  "getObjectTypes objs = map fst objs"

definition getObjectConfig :: "registry \<Rightarrow> string \<Rightarrow> PeeringDBObjectConfig option" where
  "getObjectConfig objs objectType = map_of objs (toLowerCase objectType)"

definition supportsOperation :: "registry \<Rightarrow> string \<Rightarrow> write_op \<Rightarrow> bool" where
  "supportsOperation objs objectType operation =
     (case getObjectConfig objs objectType of
        None \<Rightarrow> False
      | Some config \<Rightarrow> operation \<in> set (writeOperations config))"

section \<open>Field and object schemas\<close>

text \<open>
  \<open>createFieldSchema\<close>: the first test that matches decides. The second argument
  is not read by the source either.
\<close>

definition createFieldSchema :: "string \<Rightarrow> bool \<Rightarrow> zschema" where
  "createFieldSchema fieldName isRequired =
    (if endsWith fieldName ''_id'' \<or> fieldName = ''id'' then ZUnion [ZString [], ZNumber []]
     else if fieldName = ''asn'' then ZNumber [ZPositive, ZInt]
     else if str_includes fieldName ''email'' then ZString [ZEmail]
     else if str_includes fieldName ''phone'' then ZString []
     else if str_includes fieldName ''url'' \<or> fieldName = ''website'' \<or> fieldName = ''looking_glass''
       then ZString [ZUrl]
     else if fieldName = ''latitude'' then ZNumber [ZMin (- 90), ZMax 90]
     else if fieldName = ''longitude'' then ZNumber [ZMin (- 180), ZMax 180]
     else if startsWith fieldName ''proto_'' \<or> startsWith fieldName ''info_''
          \<or> startsWith fieldName ''avail_'' \<or> fieldName = ''is_rs_peer''
          \<or> fieldName = ''dot1q_support'' \<or> fieldName = ''operational''
       then ZBoolean
     else if fieldName = ''speed'' \<or> fieldName = ''mtu'' \<or> fieldName = ''vlan''
          \<or> fieldName = ''rs_asn'' \<or> fieldName = ''local_asn''
          \<or> startsWith fieldName ''info_prefixes''
       then ZNumber [ZNonnegative, ZInt]
     else if str_includes fieldName ''ipaddr'' \<or> fieldName = ''prefix'' then ZString []
     else if fieldName = ''role''
       then ZEnum [''Abuse'', ''Administrative'', ''Maintenance'', ''NOC'', ''Policy'',
                   ''Public Relations'', ''Sales'', ''Technical'']
     else if fieldName = ''visible'' then ZEnum [''Users'', ''Public'', ''Private'']
     else if fieldName = ''status'' then ZEnum [''ok'', ''pending'', ''deleted'']
     else if fieldName = ''info_type''
       then ZEnum [''Content'', ''Cable/DSL/ISP'', ''Enterprise'', ''Educational/Research'',
                   ''Government'', ''Non-Profit'', ''Route Server'', ''Network Services'',
                   ''Online Gaming'']
     else if fieldName = ''info_scope'' then ZEnum [''Global'', ''Regional'', ''National'', ''Local'']
     else if fieldName = ''policy_general''
       then ZEnum [''Open'', ''Selective'', ''Restrictive'', ''No'']
     else ZString [])"

datatype operation = Create | Update | Patch

datatype error =
    UnknownObjectType string
  | ValidationFailed string "string list"
  | ApiKeyRequired
  | PeeringDBError string "nat option"
  | InvalidUriFormat
  | MissingObjectType
  | InvalidObjectType string
  | InvalidUrl

text \<open>
  \<open>createObjectSchema\<close> fills \<open>schemaFields\<close> by assignments, in four steps:
  the identifier, the required fields, the optional fields, and for a patch a pass over the
  keys present that wraps every schema but the identifier's in \<open>optional\<close>.
\<close>

definition patch_optional :: "string \<Rightarrow> shape \<Rightarrow> shape" where
  "patch_optional key sf =
     (if key \<noteq> ''id'' then
        (case map_of sf key of None \<Rightarrow> sf | Some s \<Rightarrow> js_assign key (ZOptional s) sf)
      else sf)"

definition createObjectSchema :: "registry \<Rightarrow> string \<Rightarrow> operation \<Rightarrow> error + shape" where
  "createObjectSchema objs objectType operation =
    (case map_of objs objectType of
       None \<Rightarrow> Inl (UnknownObjectType objectType)
     | Some config \<Rightarrow>
        (let sf0 = [];
             sf1 = (if operation = Update \<or> operation = Patch
                    then js_assign ''id'' (ZUnion [ZString [], ZNumber []]) sf0 else sf0);
             sf2 = (if operation = Create \<or> operation = Update
                    then fold (\<lambda>field. js_assign field (createFieldSchema field True))
                           (requiredFields config) sf1
                    else sf1);
             sf3 = fold (\<lambda>field. js_assign field
                           (ZOptional (createFieldSchema field
                              (operation = Create \<and> field \<in> set (requiredFields config)))))
                     (optionalFields config) sf2;
             sf4 = (if operation = Patch then fold patch_optional (map fst sf3) sf3 else sf3)
         in Inr sf4))"

text \<open>
  \<open>validateObjectData\<close>: the library's error becomes the program's error
  \<open>Validation failed for T: ...\<close>, which lists the issues; the model keeps their paths.
\<close>

definition validateObjectData ::
    "formats \<Rightarrow> registry \<Rightarrow> string \<Rightarrow> obj \<Rightarrow> operation \<Rightarrow> error + obj" where
  "validateObjectData fm objs objectType data operation =
    (case createObjectSchema objs objectType operation of
       Inl e \<Rightarrow> Inl e
     | Inr sh \<Rightarrow>
        (case zobject_parse fm sh data of
           Inl issues \<Rightarrow> Inl (ValidationFailed objectType issues)
         | Inr v \<Rightarrow> Inr v))"

section \<open>Query parameters\<close>

text \<open>
  The match of a key against \<open>/^(.+)__(.+)$/\<close>: a dot matches every character but a
  line terminator, and the first group is greedy, so the key is cut at its last double
  underscore that leaves both parts non-empty.
\<close>

definition line_terminator :: "char \<Rightarrow> bool" where
  "line_terminator c = (c = CHR 0x0A \<or> c = CHR 0x0D)"

definition modifierMatch :: "string \<Rightarrow> (string \<times> string) option" where
  "modifierMatch key =
     (if list_ex line_terminator key then None
      else (case filter (\<lambda>i. take 2 (drop i key) = ''__'') (rev [1..<length key - 2]) of
              [] \<Rightarrow> None
            | i # _ \<Rightarrow> Some (take i key, drop (i + 2) key)))"

text \<open>
  One round of the loop of \<open>validateQueryParams\<close>, with its three branches. The loop
  runs over \<open>Object.entries(params)\<close>, in which no key occurs twice.
\<close>

definition validate_entry :: "string \<times> jsval \<Rightarrow> obj \<Rightarrow> obj" where
  "validate_entry e validated =
     (let key = fst e; v = snd e in
      if key \<in> set VALID_QUERY_PARAMS then js_assign key v validated
      else (case modifierMatch key of
              Some (fieldName, modifier) \<Rightarrow>
                if modifier \<noteq> [] \<and> modifier \<in> set VALID_QUERY_MODIFIERS
                then js_assign key v validated
                else js_assign key v validated
            | None \<Rightarrow> js_assign key v validated))"

definition validateQueryParams :: "obj \<Rightarrow> obj" where
  "validateQueryParams params = fold validate_entry params []"

subsection \<open>Reading the query string of a resource\<close>

text \<open>White space and line ends, as \<open>trim\<close> removes them: among the codes below 256.\<close>

definition is_space :: "char \<Rightarrow> bool" where
  "is_space c =
     (c \<in> set [CHR 0x09, CHR 0x0A, CHR 0x0B, CHR 0x0C, CHR 0x0D, CHR 0x20, CHR 0xA0])"

text \<open>
  \<open>parseInt(value, 10)\<close> is a function of the runtime and a parameter of the model:
  \<open>None\<close> stands for \<open>NaN\<close>, and \<open>Some n\<close> for the number \<open>n\<close> that it
  returns.
\<close>

type_synonym parse_int = "string \<Rightarrow> jsval option"

fun split_on :: "char \<Rightarrow> string \<Rightarrow> string list" where
  "split_on c [] = [[]]"
| "split_on c (x # xs) =
     (if x = c then [] # split_on c xs
      else (case split_on c xs of [] \<Rightarrow> [[x]] | w # ws \<Rightarrow> (x # w) # ws))"

definition trim :: "string \<Rightarrow> string" where
  "trim s = rev (dropWhile is_space (rev (dropWhile is_space s)))"

definition parse_param :: "parse_int \<Rightarrow> string \<times> string \<Rightarrow> obj \<Rightarrow> obj" where
  "parse_param parseInt e params =
     (let key = fst e; v = snd e in
      if key \<in> set [''limit'', ''skip'', ''depth'', ''since''] then
        (case parseInt v of
           Some numValue \<Rightarrow> js_assign key numValue params
         | None \<Rightarrow> params)
      else if endsWith key ''__in'' then
        js_assign key (JArr (map (\<lambda>x. JStr (trim x)) (split_on CHR '','' v))) params
      else js_assign key (JStr v) params)"

text \<open>
  \<open>parseResourceParams\<close> runs over the entries of \<open>uri.searchParams\<close>, in which
  a key may occur more than once.
\<close>

definition parseResourceParams :: "parse_int \<Rightarrow> (string \<times> string) list \<Rightarrow> obj" where
  "parseResourceParams parseInt entries = fold (parse_param parseInt) entries []"

subsection \<open>Resource identifiers\<close>

text \<open>
  \<open>new URL(uri)\<close> is the runtime's parser. The model covers an identifier with a
  scheme that is not one of the web's special schemes, written
  \<open>scheme:[//host]path[?query][#fragment]\<close>, whose characters need no percent coding
  and whose path has no dot segments: after \<open>//\<close> the text up to the next slash is the
  host, and the path name starts at that slash. The parser fails (\<open>None\<close>) without a
  scheme.
\<close>

record url =
  pathname :: string
  searchParams :: "(string \<times> string) list"

definition is_alpha :: "char \<Rightarrow> bool" where
  "is_alpha c = (let n = (of_char c :: nat) in (65 \<le> n \<and> n \<le> 90) \<or> (97 \<le> n \<and> n \<le> 122))"

definition is_scheme_char :: "char \<Rightarrow> bool" where
  "is_scheme_char c = (is_alpha c \<or> is_digit c \<or> c \<in> set [CHR ''+'', CHR ''-'', CHR ''.''])"

definition cut :: "char \<Rightarrow> string \<Rightarrow> string \<times> string" where
  "cut c s = (takeWhile (\<lambda>x. x \<noteq> c) s, drop 1 (dropWhile (\<lambda>x. x \<noteq> c) s))"

definition plus_to_space :: "string \<Rightarrow> string" where
  "plus_to_space s = map (\<lambda>c. if c = CHR ''+'' then CHR '' '' else c) s"

definition parse_query :: "string \<Rightarrow> (string \<times> string) list" where
  "parse_query q =
     map (\<lambda>seg. (plus_to_space (fst (cut CHR ''='' seg)), plus_to_space (snd (cut CHR ''='' seg))))
       (filter (\<lambda>seg. seg \<noteq> []) (split_on CHR ''&'' q))"

definition parse_url :: "string \<Rightarrow> url option" where
  "parse_url s =
     (let scheme = takeWhile (\<lambda>x. x \<noteq> CHR '':'') s;
          rest = dropWhile (\<lambda>x. x \<noteq> CHR '':'') s
      in if rest = [] then None
         else (case scheme of
                 [] \<Rightarrow> None
               | c # cs \<Rightarrow>
                   if \<not> is_alpha c \<or> \<not> list_all is_scheme_char cs then None
                   else
                     (let r = takeWhile (\<lambda>x. x \<noteq> CHR ''#'') (drop 1 rest);
                          hier = fst (cut CHR ''?'' r);
                          q = snd (cut CHR ''?'' r);
                          path = (if startsWith hier ''//''
                                  then dropWhile (\<lambda>x. x \<noteq> CHR ''/'') (drop 2 hier)
                                  else hier)
                      in Some \<lparr> pathname = path, searchParams = parse_query q \<rparr>)))"

definition validateObjectType :: "registry \<Rightarrow> string \<Rightarrow> bool" where
  "validateObjectType objs objectType = (map_of objs (toLowerCase objectType) \<noteq> None)"

definition nth_opt :: "'a list \<Rightarrow> nat \<Rightarrow> 'a option" where
  "nth_opt xs i = (if i < length xs then Some (xs ! i) else None)"

record ResourceRef =
  ref_objectType :: string
  ref_id :: "string option"
  ref_params :: obj

definition validateResourceUri :: "registry \<Rightarrow> string \<Rightarrow> error + ResourceRef" where
  "validateResourceUri objs uri =
     (case parse_url uri of
        None \<Rightarrow> Inl InvalidUrl
      | Some u \<Rightarrow>
         (let pathParts = filter (\<lambda>part. length part > 0) (split_on CHR ''/'' (pathname u))
          in if length pathParts < 1 \<or> nth_opt pathParts 0 \<noteq> Some ''peeringdb:''
             then Inl InvalidUriFormat
             else (case nth_opt pathParts 1 of
                     None \<Rightarrow> Inl MissingObjectType
                   | Some objectType \<Rightarrow>
                       if \<not> validateObjectType objs objectType
                       then Inl (InvalidObjectType objectType)
                       else Inr \<lparr> ref_objectType = objectType,
                                  ref_id = nth_opt pathParts 2,
                                  ref_params = validateQueryParams
                                    (fold (\<lambda>e. js_assign (fst e) (JStr (snd e)))
                                       (searchParams u) []) \<rparr>)))"

section \<open>The backend client\<close>

text \<open>
  The remote service is a parameter: given what has happened so far and a request, it
  answers with the data of a response or fails with a message and, if it answered at
  all, a status. Everything the program does to the outside is recorded, in order, in a
  trace of events: a request sent, or a pause of so many milliseconds. A request holds the
  endpoint and the identifier that the client puts into the path
  \<open>/${endpoint}/${id}\<close>, the identifier as the value it was given.
\<close>

datatype http_request =
    HttpPost string obj
  | HttpPut string jsval obj
  | HttpPatch string jsval obj
  | HttpDelete string jsval

datatype event = Call http_request | Sleep nat

type_synonym world = "event list"

type_synonym backend = "world \<Rightarrow> http_request \<Rightarrow> (string \<times> nat option) + jsval"

record client =
  apiKey :: "string option"

definition hasApiKey :: "client \<Rightarrow> bool" where
  "hasApiKey c = (apiKey c \<noteq> None \<and> apiKey c \<noteq> Some [])"

definition validateApiKey :: "client \<Rightarrow> error + unit" where
  "validateApiKey c = (if \<not> hasApiKey c then Inl ApiKeyRequired else Inr ())"

text \<open>The response interceptor rewrites the message for four statuses.\<close>

definition interceptor :: "string \<times> nat option \<Rightarrow> error" where
  "interceptor f =
     (let st = snd f in
      PeeringDBError
        (if st = Some 401 then ''Authentication failed. Please check your API key.''
         else if st = Some 403 then ''Access forbidden. Insufficient permissions.''
         else if st = Some 404 then ''Resource not found.''
         else if st = Some 429 then ''Rate limit exceeded. Please try again later.''
         else fst f)
        st)"

fun handleError :: "error \<Rightarrow> error" where
  "handleError (PeeringDBError m st) =
     (if m \<noteq> [] \<and> st \<noteq> None then PeeringDBError m st
      else PeeringDBError (if m = [] then ''Unknown error occurred'' else m) None)"
| "handleError e = e"

definition send :: "backend \<Rightarrow> http_request \<Rightarrow> world \<Rightarrow> (error + jsval) \<times> world" where
  "send be req w =
     ((case be w req of Inl f \<Rightarrow> Inl (handleError (interceptor f)) | Inr d \<Rightarrow> Inr d),
      w @ [Call req])"

definition client_post ::
    "client \<Rightarrow> backend \<Rightarrow> string \<Rightarrow> obj \<Rightarrow> world \<Rightarrow> (error + jsval) \<times> world" where
  "client_post c be ep data w =
     (case validateApiKey c of Inl e \<Rightarrow> (Inl e, w) | Inr u \<Rightarrow> send be (HttpPost ep data) w)"

definition client_put ::
    "client \<Rightarrow> backend \<Rightarrow> string \<Rightarrow> jsval \<Rightarrow> obj \<Rightarrow> world \<Rightarrow> (error + jsval) \<times> world" where
  "client_put c be ep i data w =
     (case validateApiKey c of Inl e \<Rightarrow> (Inl e, w) | Inr u \<Rightarrow> send be (HttpPut ep i data) w)"

definition client_patch ::
    "client \<Rightarrow> backend \<Rightarrow> string \<Rightarrow> jsval \<Rightarrow> obj \<Rightarrow> world \<Rightarrow> (error + jsval) \<times> world" where
  "client_patch c be ep i data w =
     (case validateApiKey c of Inl e \<Rightarrow> (Inl e, w) | Inr u \<Rightarrow> send be (HttpPatch ep i data) w)"

definition client_delete ::
    "client \<Rightarrow> backend \<Rightarrow> string \<Rightarrow> jsval \<Rightarrow> world \<Rightarrow> (error + jsval) \<times> world" where
  "client_delete c be ep i w =
     (case validateApiKey c of Inl e \<Rightarrow> (Inl e, w) | Inr u \<Rightarrow> send be (HttpDelete ep i) w)"

section \<open>The tools\<close>

text \<open>
  A handler returns a text to the caller; the model keeps what the text is made of: the
  response of a success, the error of a failure (\<open>isError\<close>), the summary of a bulk run.
\<close>

record BulkItemResult =
  success :: bool
  item :: obj
  response :: jsval
  item_error :: "error option"

record BulkSummary =
  successful :: nat
  failed :: nat
  results :: "BulkItemResult list"

datatype tool_result = ToolOk jsval | ToolFailed error | BulkDone BulkSummary

definition finish :: "(error + jsval) \<times> world \<Rightarrow> tool_result \<times> world" where
  "finish r = (case fst r of Inl e \<Rightarrow> (ToolFailed e, snd r) | Inr d \<Rightarrow> (ToolOk d, snd r))"

definition create_handler ::
    "formats \<Rightarrow> registry \<Rightarrow> client \<Rightarrow> backend \<Rightarrow> string \<Rightarrow> PeeringDBObjectConfig
      \<Rightarrow> obj \<Rightarrow> world \<Rightarrow> tool_result \<times> world" where
  "create_handler fm objs c be objectType config args w =
     (case validateObjectData fm objs objectType args Create of
        Inl e \<Rightarrow> (ToolFailed e, w)
      | Inr validatedData \<Rightarrow> finish (client_post c be (endpoint config) validatedData w))"

definition update_handler ::
    "formats \<Rightarrow> registry \<Rightarrow> client \<Rightarrow> backend \<Rightarrow> string \<Rightarrow> PeeringDBObjectConfig
      \<Rightarrow> obj \<Rightarrow> world \<Rightarrow> tool_result \<times> world" where
  "update_handler fm objs c be objectType config args w =
     (let i = obj_get args ''id''; data = obj_rest ''id'' args in
      case validateObjectData fm objs objectType data Update of
        Inl e \<Rightarrow> (ToolFailed e, w)
      | Inr validatedData \<Rightarrow> finish (client_put c be (endpoint config) i validatedData w))"

definition patch_handler ::
    "formats \<Rightarrow> registry \<Rightarrow> client \<Rightarrow> backend \<Rightarrow> string \<Rightarrow> PeeringDBObjectConfig
      \<Rightarrow> obj \<Rightarrow> world \<Rightarrow> tool_result \<times> world" where
  "patch_handler fm objs c be objectType config args w =
     (let i = obj_get args ''id''; data = obj_rest ''id'' args in
      case validateObjectData fm objs objectType data Patch of
        Inl e \<Rightarrow> (ToolFailed e, w)
      | Inr validatedData \<Rightarrow> finish (client_patch c be (endpoint config) i validatedData w))"


subsection \<open>Bulk operations\<close>

datatype bulk_op = BulkCreate | BulkUpdate | BulkDelete

text \<open>
  The arguments of the bulk tool as its input schema passes them on: the operation is one
  of three words, the items are objects, and the batch size is a number, 10 when the caller
  gave none. The model has the finite batch sizes.
\<close>

record BulkArgs =
  bulk_operation :: bulk_op
  bulk_items :: "obj list"
  batch_size :: rat

definition item_result :: "obj \<Rightarrow> (error + jsval) \<times> world \<Rightarrow> BulkItemResult \<times> world" where
  "item_result it r =
     (case fst r of
        Inl e \<Rightarrow> (\<lparr> success = False, item = it, response = JUndefined, item_error = Some e \<rparr>, snd r)
      | Inr d \<Rightarrow> (\<lparr> success = True, item = it, response = d, item_error = None \<rparr>, snd r))"

text \<open>The body of the loop over a batch: the \<open>switch\<close> inside its \<open>try\<close>.\<close>

definition process_item ::
    "formats \<Rightarrow> registry \<Rightarrow> client \<Rightarrow> backend \<Rightarrow> string \<Rightarrow> PeeringDBObjectConfig
      \<Rightarrow> bulk_op \<Rightarrow> obj \<Rightarrow> world \<Rightarrow> BulkItemResult \<times> world" where
  "process_item fm objs c be objectType config operation it w =
     (case operation of
        BulkCreate \<Rightarrow>
          (case validateObjectData fm objs objectType it Create of
             Inl e \<Rightarrow> item_result it (Inl e, w)
           | Inr createData \<Rightarrow> item_result it (client_post c be (endpoint config) createData w))
      | BulkUpdate \<Rightarrow>
          (let updateId = obj_get it ''id''; updateData = obj_rest ''id'' it in
           case validateObjectData fm objs objectType updateData Update of
             Inl e \<Rightarrow> item_result it (Inl e, w)
           | Inr validatedUpdateData \<Rightarrow>
               item_result it (client_put c be (endpoint config) updateId validatedUpdateData w))
      | BulkDelete \<Rightarrow>
          item_result it (client_delete c be (endpoint config) (obj_get it ''id'') w))"

fun process_batch ::
    "(obj \<Rightarrow> world \<Rightarrow> BulkItemResult \<times> world) \<Rightarrow> obj list \<Rightarrow> BulkItemResult list \<Rightarrow> world
      \<Rightarrow> BulkItemResult list \<times> world" where
  "process_batch P [] rs w = (rs, w)"
| "process_batch P (it # rest) rs w =
     process_batch P rest (rs @ [fst (P it w)]) (snd (P it w))"

text \<open>
  \<open>Array.prototype.slice(start, end)\<close>: both indices are truncated towards zero, a
  negative one counts from the end, and both are clamped to the length.
\<close>

definition to_integer :: "rat \<Rightarrow> int" where
  "to_integer r = (if r < 0 then \<lceil>r\<rceil> else \<lfloor>r\<rfloor>)"

definition rel_index :: "rat \<Rightarrow> nat \<Rightarrow> nat" where
  "rel_index r len =
     (let k = to_integer r in if k < 0 then nat (max (int len + k) 0) else min (nat k) len)"

definition js_slice :: "'a list \<Rightarrow> rat \<Rightarrow> rat \<Rightarrow> 'a list" where
  "js_slice xs s e =
     (let a = rel_index s (length xs); b = rel_index e (length xs) in take (b - a) (drop a xs))"

text \<open>
  The loop \<open>for (let i = 0; i < items.length; i += batch_size)\<close>. With a batch size
  that is not positive it never ends: the result is \<open>None\<close>.
\<close>

partial_function (option) bulk_loop ::
    "(obj \<Rightarrow> world \<Rightarrow> BulkItemResult \<times> world) \<Rightarrow> obj list \<Rightarrow> rat \<Rightarrow> rat
      \<Rightarrow> BulkItemResult list \<Rightarrow> world \<Rightarrow> (BulkItemResult list \<times> world) option" where
  "bulk_loop P items bsize i rs w =
     (if i < of_nat (length items) then
        bulk_loop P items bsize (i + bsize)
          (fst (process_batch P (js_slice items i (i + bsize)) rs w))
          (if i + bsize < of_nat (length items)
           then snd (process_batch P (js_slice items i (i + bsize)) rs w) @ [Sleep 1000]
           else snd (process_batch P (js_slice items i (i + bsize)) rs w))
      else Some (rs, w))"

declare bulk_loop.simps [code]

definition bulk_handler ::
    "formats \<Rightarrow> registry \<Rightarrow> client \<Rightarrow> backend \<Rightarrow> string \<Rightarrow> PeeringDBObjectConfig
      \<Rightarrow> BulkArgs \<Rightarrow> world \<Rightarrow> (tool_result \<times> world) option" where
  "bulk_handler fm objs c be objectType config args w =
     (case bulk_loop (process_item fm objs c be objectType config (bulk_operation args))
             (bulk_items args) (batch_size args) 0 [] w of
        None \<Rightarrow> None
      | Some (rs, w') \<Rightarrow>
          Some (BulkDone \<lparr> successful = length (filter success rs),
                           failed = length (filter (\<lambda>r. \<not> success r) rs),
                           results = rs \<rparr>, w'))"

text \<open>A step that sends at most one request and does nothing else to the outside.\<close>

definition one_call :: "world \<Rightarrow> world \<Rightarrow> bool" where
  "one_call w w' = (w' = w \<or> (\<exists>req. w' = w @ [Call req]))"

section \<open>Sample inputs\<close>

text \<open>
  Concrete inputs for the examples below: one choice of the library's parameters (an
  e-mail address has an at sign, a URL is what the URL parser accepts, infinite numbers are
  admitted), a client with a key, and a backend that answers every request with
  \<open>null\<close>.
\<close>

definition basic_formats :: formats where
  "basic_formats =
     \<lparr> is_email = (\<lambda>s. CHR ''@'' \<in> set s), is_url = (\<lambda>s. parse_url s \<noteq> None),
       infinite_numbers = True \<rparr>"

text \<open>
  A stand-in for the runtime's \<open>parseInt(value, 10)\<close> in the examples: leading white
  space is skipped, one sign is read, then the longest run of decimal digits; without a
  digit the result is \<open>NaN\<close>. It gives the runtime's result on strings whose run of
  digits has at most 15 digits, where no rounding occurs.
\<close>

definition digit_val :: "char \<Rightarrow> int" where
  "digit_val c = int (of_char c) - 48"

definition sample_parseInt :: parse_int where
  "sample_parseInt s =
     (let t = dropWhile is_space s;
          neg = (take 1 t = ''-'');
          u = (if take 1 t = ''-'' \<or> take 1 t = ''+'' then drop 1 t else t);
          ds = takeWhile is_digit u
      in if ds = [] then None
         else Some (JNum (of_int
                ((if neg then - 1 else 1) * foldl (\<lambda>a c. 10 * a + digit_val c) 0 ds))))"

definition keyed_client :: client where
  "keyed_client = \<lparr> apiKey = Some ''secret'' \<rparr>"

definition null_backend :: backend where
  "null_backend w req = Inr JNull"

section \<open>Objects built by assignment\<close>

lemma keys_eq_dom: "fst ` set xs = dom (map_of xs)"
  by (simp add: dom_map_of_conv_image_fst)

lemma map_of_insert_index:
  "map_of ob k = None \<Longrightarrow> map_of (insert_index k v ob) = (map_of ob)(k \<mapsto> v)"
proof (induction ob)
  case Nil
  then show ?case by simp
next
  case (Cons p ps)
  then have ne: "fst p \<noteq> k" and none: "map_of ps k = None"
    by (auto split: if_splits)
  show ?case
    using Cons.IH[OF none] ne by (cases p) (auto simp: fun_upd_twist)
qed

text \<open>An assignment sets the key, but for \<open>__proto__\<close>, which it leaves out.\<close>

lemma map_of_js_assign:
  "map_of (js_assign k v ob) = (if k = ''__proto__'' then map_of ob else (map_of ob)(k \<mapsto> v))"
proof -
  have "map_of (ob @ [(k, v)]) = (map_of ob)(k \<mapsto> v)" if "map_of ob k = None"
    using that by (auto simp: map_of_append map_add_def fun_eq_iff split: option.splits)
  then show ?thesis
    by (simp add: js_assign_def update_conv' map_of_insert_index del: map_of_append)
qed

lemma keys_js_assign:
  "fst ` set (js_assign k v ob) =
     (if k = ''__proto__'' then fst ` set ob else insert k (fst ` set ob))"
  unfolding keys_eq_dom by (simp add: map_of_js_assign)

lemma keys_insert_index: "fst ` set (insert_index k v ob) = insert k (fst ` set ob)"
  by (induction ob) auto

lemma distinct_insert_index:
  "k \<notin> fst ` set ob \<Longrightarrow> distinct (map fst ob) \<Longrightarrow> distinct (map fst (insert_index k v ob))"
proof (induction ob)
  case Nil
  then show ?case by simp
next
  case (Cons p ps)
  then show ?case
    using keys_insert_index[of k v ps] by (auto simp: image_iff)
qed

lemma distinct_js_assign:
  assumes d: "distinct (map fst ob)"
  shows "distinct (map fst (js_assign k v ob))"
proof (cases "map_of ob k = None")
  case True
  then have "k \<notin> fst ` set ob" by (simp add: keys_eq_dom dom_def)
  then have "distinct (map fst (insert_index k v ob))" "distinct (map fst (ob @ [(k, v)]))"
    using d by (simp_all add: distinct_insert_index)
  then show ?thesis using d True by (simp add: js_assign_def)
next
  case False
  then show ?thesis using d by (simp add: js_assign_def distinct_update)
qed

lemma fold_js_assign_map_of:
  "map_of (fold (\<lambda>f. js_assign f (g f)) fs s) k =
     (if k \<in> set fs \<and> k \<noteq> ''__proto__'' then Some (g k) else map_of s k)"
  by (induction fs arbitrary: s) (auto simp: map_of_js_assign)

lemma fold_js_assign_keys:
  "fst ` set (fold (\<lambda>f. js_assign f (g f)) fs s) = (set fs - {''__proto__''}) \<union> fst ` set s"
  unfolding keys_eq_dom by (auto simp: fold_js_assign_map_of dom_def)

lemma patch_optional_id: "map_of (patch_optional key sf) ''id'' = map_of sf ''id''"
  by (auto simp: patch_optional_def map_of_js_assign split: option.splits)

lemma fold_patch_optional_id: "map_of (fold patch_optional ks sf) ''id'' = map_of sf ''id''"
  by (induction ks arbitrary: sf) (simp_all add: patch_optional_id)

lemma patch_optional_keys: "fst ` set (patch_optional key sf) = fst ` set sf"
  unfolding keys_eq_dom
  by (auto simp: patch_optional_def map_of_js_assign split: option.splits)

lemma fold_patch_optional_keys: "fst ` set (fold patch_optional ks sf) = fst ` set sf"
  by (induction ks arbitrary: sf) (simp_all add: patch_optional_keys)

section \<open>Update and patch: the identifier is removed, then required\<close>

lemma createFieldSchema_id: "createFieldSchema ''id'' b = ZUnion [ZString [], ZNumber []]"
  by (simp add: createFieldSchema_def)

lemma schema_requires_id:
  assumes "map_of objs T = Some config" and "''id'' \<notin> set (optionalFields config)"
    and "operation = Update \<or> operation = Patch"
  shows "\<exists>sh. createObjectSchema objs T operation = Inr sh \<and>
           map_of sh ''id'' = Some (ZUnion [ZString [], ZNumber []])"
  using assms
  by (auto simp: createObjectSchema_def Let_def fold_js_assign_map_of fold_patch_optional_id
        createFieldSchema_id map_of_js_assign)

lemma obj_get_rest: "obj_get (obj_rest k ob) k = JUndefined"
proof -
  have "map_of (filter (\<lambda>p. fst p \<noteq> k) ob) k = None"
    by (induction ob) auto
  then show ?thesis by (simp add: obj_get_def obj_rest_def)
qed

lemma parse_fails_on_key:
  assumes "map_of sh k = Some s" and "\<not> zaccepts fm s (obj_get data k)"
  shows "\<exists>issues. zobject_parse fm sh data = Inl issues \<and> k \<in> set issues"
proof -
  from assms(1) have "(k, s) \<in> set sh" by (rule map_of_SomeD)
  with assms(2)
  have "k \<in> set (map fst (filter (\<lambda>(k, s). \<not> zaccepts fm s (obj_get data k)) sh))"
    by force
  moreover from this
  have "map fst (filter (\<lambda>(k, s). \<not> zaccepts fm s (obj_get data k)) sh) \<noteq> []"
    by (metis empty_iff list.set(1))
  ultimately show ?thesis
    by (simp add: zobject_parse_def Let_def)
qed

lemma validate_without_id_fails:
  assumes "map_of objs T = Some config" and "''id'' \<notin> set (optionalFields config)"
    and "operation = Update \<or> operation = Patch"
  shows "\<exists>issues. validateObjectData fm objs T (obj_rest ''id'' args) operation
            = Inl (ValidationFailed T issues) \<and> ''id'' \<in> set issues"
proof -
  from schema_requires_id[OF assms] obtain sh where
    sh: "createObjectSchema objs T operation = Inr sh"
        "map_of sh ''id'' = Some (ZUnion [ZString [], ZNumber []])" by blast
  have "\<not> zaccepts fm (ZUnion [ZString [], ZNumber []]) (obj_get (obj_rest ''id'' args) ''id'')"
    by (simp add: obj_get_rest)
  from parse_fails_on_key[OF sh(2) this] obtain issues where
    "zobject_parse fm sh (obj_rest ''id'' args) = Inl issues" "''id'' \<in> set issues" by blast
  with sh(1) show ?thesis by (simp add: validateObjectData_def)
qed

lemma registry_no_id_field:
  "map_of PEERINGDB_OBJECTS T = Some config \<Longrightarrow> ''id'' \<notin> set (optionalFields config)"
  by (auto simp: PEERINGDB_OBJECTS_def split: if_splits)

text \<open>
  C1. For every registered object type and every argument object, the update handler, the
  patch handler and the bulk handler's update case take \<open>id\<close> out of the arguments and
  validate the rest against a schema in which \<open>id\<close> is required. So each of them fails
  with a validation error that names \<open>id\<close>, and the trace of events is unchanged: no
  request is sent.
\<close>

theorem update_and_patch_always_fail:
  assumes "map_of PEERINGDB_OBJECTS T = Some config"
  shows "(\<exists>issues. ''id'' \<in> set issues \<and>
            update_handler fm PEERINGDB_OBJECTS c be T config args w
              = (ToolFailed (ValidationFailed T issues), w))
       \<and> (\<exists>issues. ''id'' \<in> set issues \<and>
            patch_handler fm PEERINGDB_OBJECTS c be T config args w
              = (ToolFailed (ValidationFailed T issues), w))
       \<and> (\<exists>issues. ''id'' \<in> set issues \<and>
            process_item fm PEERINGDB_OBJECTS c be T config BulkUpdate args w
              = (\<lparr> success = False, item = args, response = JUndefined,
                    item_error = Some (ValidationFailed T issues) \<rparr>, w))"
proof -
  note nid = registry_no_id_field[OF assms]
  obtain iu where iu: "validateObjectData fm PEERINGDB_OBJECTS T (obj_rest ''id'' args) Update
      = Inl (ValidationFailed T iu)" "''id'' \<in> set iu"
    using validate_without_id_fails[OF assms nid, of Update] by blast
  obtain ip where ip: "validateObjectData fm PEERINGDB_OBJECTS T (obj_rest ''id'' args) Patch
      = Inl (ValidationFailed T ip)" "''id'' \<in> set ip"
    using validate_without_id_fails[OF assms nid, of Patch] by blast
  have "update_handler fm PEERINGDB_OBJECTS c be T config args w
          = (ToolFailed (ValidationFailed T iu), w)"
    by (simp add: update_handler_def Let_def iu(1))
  moreover have "patch_handler fm PEERINGDB_OBJECTS c be T config args w
          = (ToolFailed (ValidationFailed T ip), w)"
    by (simp add: patch_handler_def Let_def ip(1))
  moreover have "process_item fm PEERINGDB_OBJECTS c be T config BulkUpdate args w
              = (\<lparr> success = False, item = args, response = JUndefined,
                    item_error = Some (ValidationFailed T iu) \<rparr>, w)"
    by (simp add: process_item_def Let_def iu(1) item_result_def)
  ultimately show ?thesis using iu(2) ip(2) by blast
qed

text \<open>
  An update of a network with an identifier and every required field, a client with a key
  and a backend that would accept the request: the handler still fails and sends nothing.
\<close>

theorem update_and_patch_always_fail_witness:
  "\<exists>config issues.
     map_of PEERINGDB_OBJECTS ''net'' = Some config \<and>
     update_handler basic_formats PEERINGDB_OBJECTS keyed_client null_backend ''net'' config
       [(''id'', JNum 42), (''name'', JStr ''N''), (''org_id'', JNum 1), (''asn'', JNum 64500)] []
       = (ToolFailed (ValidationFailed ''net'' issues), [])"
proof -
  obtain config where m: "map_of PEERINGDB_OBJECTS ''net'' = Some config"
    by (simp add: PEERINGDB_OBJECTS_def)
  from update_and_patch_always_fail[OF m] m show ?thesis by blast
qed

section \<open>Fields that the schema does not have\<close>

lemma obj_get_update_other: "k' \<noteq> k \<Longrightarrow> obj_get (AList.update k v data) k' = obj_get data k'"
  by (simp add: obj_get_def update_conv')

lemma obj_has_update_other: "k' \<noteq> k \<Longrightarrow> obj_has (AList.update k v data) k' = obj_has data k'"
  by (simp add: obj_has_def update_conv')

lemma zobject_parse_ignores:
  assumes "k \<notin> fst ` set sh"
  shows "zobject_parse fm sh (AList.update k v data) = zobject_parse fm sh data"
proof -
  have ne: "\<And>k' s. (k', s) \<in> set sh \<Longrightarrow> k' \<noteq> k"
    using assms by force
  have f1: "filter (\<lambda>(k', s). \<not> zaccepts fm s (obj_get (AList.update k v data) k')) sh
          = filter (\<lambda>(k', s). \<not> zaccepts fm s (obj_get data k')) sh"
    by (rule filter_cong) (auto simp: obj_get_update_other dest: ne)
  have f2: "filter (\<lambda>(k', s). obj_has (AList.update k v data) k') sh
          = filter (\<lambda>(k', s). obj_has data k') sh"
    by (rule filter_cong) (auto simp: obj_has_update_other dest: ne)
  have f3: "map (\<lambda>(k', s). (k', obj_get (AList.update k v data) k'))
              (filter (\<lambda>(k', s). obj_has data k') sh)
          = map (\<lambda>(k', s). (k', obj_get data k')) (filter (\<lambda>(k', s). obj_has data k') sh)"
    by (rule map_cong) (auto simp: obj_get_update_other dest: ne)
  show ?thesis
    unfolding zobject_parse_def Let_def f1 f2 f3 ..
qed

lemma zobject_parse_keys:
  "zobject_parse fm sh data = Inr out \<Longrightarrow> fst ` set out \<subseteq> fst ` set sh"
  by (force simp: zobject_parse_def Let_def split: if_splits)

text \<open>
  C2, as the code has it. For every registry, object type and operation, a property of the
  payload whose key the built schema does not have is dropped without an error: setting
  such a property in a payload changes neither whether validation succeeds nor its result,
  and the property is never in a validated result.
\<close>

theorem unknown_fields_are_dropped:
  assumes "createObjectSchema objs T operation = Inr sh" and "k \<notin> fst ` set sh"
  shows "validateObjectData fm objs T (AList.update k v data) operation
           = validateObjectData fm objs T data operation
       \<and> (\<forall>out. validateObjectData fm objs T (AList.update k v data) operation = Inr out
              \<longrightarrow> k \<notin> fst ` set out)"
proof -
  have eq: "validateObjectData fm objs T (AList.update k v data) operation
           = validateObjectData fm objs T data operation"
    by (simp add: validateObjectData_def assms(1) zobject_parse_ignores[OF assms(2)])
  have "k \<notin> fst ` set out"
    if "validateObjectData fm objs T (AList.update k v data) operation = Inr out" for out
  proof -
    from that have "zobject_parse fm sh (AList.update k v data) = Inr out"
      by (simp add: validateObjectData_def assms(1) split: sum.splits)
    from zobject_parse_keys[OF this] assms(2) show ?thesis by blast
  qed
  with eq show ?thesis by blast
qed

text \<open>
  The claim as the specification states it fails: creating an organization with an
  unknown field \<open>bogus\<close> succeeds, and the result has lost the field.
\<close>

theorem unknown_field_counterexample:
  "validateObjectData basic_formats PEERINGDB_OBJECTS ''org''
     [(''name'', JStr ''X''), (''bogus'', JStr ''y'')] Create = Inr [(''name'', JStr ''X'')]"
  by code_simp

lemma org_create_schema_keys:
  "\<exists>sh. createObjectSchema PEERINGDB_OBJECTS ''org'' Create = Inr sh \<and> ''bogus'' \<notin> fst ` set sh"
proof -
  have "case createObjectSchema PEERINGDB_OBJECTS ''org'' Create of
          Inl e \<Rightarrow> False | Inr sh \<Rightarrow> ''bogus'' \<notin> set (map fst sh)"
    by code_simp
  then show ?thesis by (auto split: sum.splits)
qed

theorem unknown_fields_are_dropped_witness:
  "\<exists>sh. createObjectSchema PEERINGDB_OBJECTS ''org'' Create = Inr sh \<and> ''bogus'' \<notin> fst ` set sh
     \<and> validateObjectData basic_formats PEERINGDB_OBJECTS ''org''
          (AList.update ''bogus'' (JStr ''y'') [(''name'', JStr ''X'')]) Create
        = Inr [(''name'', JStr ''X'')]"
proof -
  obtain sh where sh: "createObjectSchema PEERINGDB_OBJECTS ''org'' Create = Inr sh"
      "''bogus'' \<notin> fst ` set sh"
    using org_create_schema_keys by blast
  have "validateObjectData basic_formats PEERINGDB_OBJECTS ''org'' [(''name'', JStr ''X'')] Create
        = Inr [(''name'', JStr ''X'')]"
    by code_simp
  with unknown_fields_are_dropped[OF sh, of basic_formats "JStr ''y''" "[(''name'', JStr ''X'')]"] sh
  show ?thesis by auto
qed

section \<open>The schema of a patch\<close>

text \<open>
  For every registry and type, the keys of the patch schema are \<open>id\<close> and the optional
  fields of the descriptor (but a field called \<open>__proto__\<close>): a required field that is
  not also listed as optional is not in it.
\<close>

lemma patch_schema_fields:
  assumes "map_of objs T = Some config"
  shows "\<exists>sh. createObjectSchema objs T Patch = Inr sh \<and>
           fst ` set sh = insert ''id'' (set (optionalFields config) - {''__proto__''})"
  using assms
  by (auto simp: createObjectSchema_def Let_def fold_patch_optional_keys fold_js_assign_keys
        keys_js_assign)

text \<open>
  C3 at the organization: \<open>name\<close> is required for a create, and the specification wants
  it in the patch schema as an optional field. The schema built for a patch has \<open>id\<close>
  and the twelve optional fields only, so a patch that renames an organization validates
  to a payload without the name.
\<close>

theorem patch_schema_omits_required:
  "map fst (case createObjectSchema PEERINGDB_OBJECTS ''org'' Patch of Inl e \<Rightarrow> [] | Inr sh \<Rightarrow> sh)
     = [''id'', ''website'', ''notes'', ''address1'', ''address2'', ''city'', ''state'',
        ''zipcode'', ''country'', ''latitude'', ''longitude'', ''phone'', ''email'']
   \<and> validateObjectData fm PEERINGDB_OBJECTS ''org''
        [(''id'', JNum 1), (''name'', JStr ''X'')] Patch = Inr [(''id'', JNum 1)]"
  by code_simp

theorem patch_schema_omits_required_witness:
  "map_of (case validateObjectData basic_formats PEERINGDB_OBJECTS ''org''
             [(''id'', JNum 1), (''name'', JStr ''X'')] Patch of Inl e \<Rightarrow> [] | Inr out \<Rightarrow> out)
     ''name'' = None"
  using patch_schema_omits_required[of basic_formats] by simp

section \<open>Query parameters: which keys are kept\<close>

lemma validate_entry_assigns: "validate_entry e acc = js_assign (fst e) (snd e) acc"
  by (simp add: validate_entry_def Let_def split: option.splits prod.splits)

lemma validateQueryParams_fold:
  "validateQueryParams params = fold (\<lambda>e. js_assign (fst e) (snd e)) params []"
  unfolding validateQueryParams_def
  by (rule arg_cong[where f="\<lambda>f. fold f params []"]) (auto simp: validate_entry_assigns fun_eq_iff)

lemma fold_assign_entries:
  "distinct (map fst ps) \<Longrightarrow> k \<noteq> ''__proto__'' \<Longrightarrow>
     map_of (fold (\<lambda>e. js_assign (fst e) (snd e)) ps acc) k =
       (case map_of ps k of None \<Rightarrow> map_of acc k | Some v \<Rightarrow> Some v)"
proof (induction ps arbitrary: acc)
  case Nil
  then show ?case by simp
next
  case (Cons e ps)
  show ?case
  proof (cases "fst e = k")
    case True
    then have "k \<notin> fst ` set ps" using Cons.prems(1) by auto
    then have "map_of ps k = None" by (simp add: keys_eq_dom dom_def)
    then show ?thesis
      using Cons.IH[of "js_assign (fst e) (snd e) acc"] Cons.prems True
      by (cases e) (simp add: map_of_js_assign)
  next
    case False
    then have "map_of (js_assign (fst e) (snd e) acc) k = map_of acc k"
      by (simp add: map_of_js_assign)
    then show ?thesis
      using Cons.IH[of "js_assign (fst e) (snd e) acc"] Cons.prems False
      by (simp split: option.splits)
  qed
qed

text \<open>
  On the properties of an object (no key occurs twice), every property whose key is not
  \<open>__proto__\<close> is returned under its key with its value, whatever branch its key takes.
  The key \<open>asn__bogus\<close> is no standard parameter; it matches the pattern with the
  modifier \<open>bogus\<close>, which is not a recognized modifier, and so it is kept by the last
  branch, the one for exact-match field filters.
\<close>

lemma validateQueryParams_keeps:
  assumes "distinct (map fst params)" and "k \<noteq> ''__proto__''"
  shows "map_of (validateQueryParams params) k = map_of params k"
  using fold_assign_entries[OF assms, of "[]"]
  by (simp add: validateQueryParams_fold split: option.splits)

lemma asn_bogus_is_exact_match:
  "''asn__bogus'' \<notin> set VALID_QUERY_PARAMS
   \<and> modifierMatch ''asn__bogus'' = Some (''asn'', ''bogus'')
   \<and> ''bogus'' \<notin> set VALID_QUERY_MODIFIERS
   \<and> validateQueryParams [(''asn__bogus'', v)] = [(''asn__bogus'', v)]"
proof -
  have "modifierMatch ''asn__bogus'' = Some (''asn'', ''bogus'')"
    by code_simp
  moreover have "''asn__bogus'' \<notin> set VALID_QUERY_PARAMS"
      "''bogus'' \<notin> set VALID_QUERY_MODIFIERS"
    by (simp_all add: VALID_QUERY_PARAMS_def VALID_QUERY_MODIFIERS_def)
  moreover have "validateQueryParams [(''asn__bogus'', v)] = [(''asn__bogus'', v)]"
    by (simp add: validateQueryParams_fold js_assign_def is_array_index_def is_digit_def)
  ultimately show ?thesis by simp
qed

text \<open>
  C5. The specification wants every key of the input in the output. Each of the three
  branches assigns \<open>validated[key] = value\<close>, and for the key \<open>__proto__\<close> that
  assignment creates no property: of the two properties \<open>__proto__\<close> and
  \<open>asn__bogus\<close> the function returns the second only.
\<close>

theorem proto_key_is_dropped:
  "validateQueryParams [(''__proto__'', JStr ''x''), (''asn__bogus'', JStr ''10'')]
     = [(''asn__bogus'', JStr ''10'')]"
  by code_simp

theorem proto_key_is_dropped_witness:
  "obj_has [(''__proto__'', JStr ''x''), (''asn__bogus'', JStr ''10'')] ''__proto__''
   \<and> \<not> obj_has (validateQueryParams
               [(''__proto__'', JStr ''x''), (''asn__bogus'', JStr ''10'')]) ''__proto__''"
  using proto_key_is_dropped by (simp add: obj_has_def)

text \<open>
  The same key in the query string of a resource is lost one step earlier, by the
  assignment \<open>params[key] = value\<close>.
\<close>

lemma proto_query_key_is_dropped:
  "parseResourceParams parseInt [(''__proto__'', ''x''), (''asn__bogus'', ''10'')]
     = [(''asn__bogus'', JStr ''10'')]"
  by (simp add: parseResourceParams_def parse_param_def js_assign_def endsWith_def
        is_array_index_def is_digit_def)

section \<open>The numeric standard parameters\<close>

lemma parse_param_other:
  "k \<noteq> fst e \<Longrightarrow> map_of (parse_param parseInt e acc) k = map_of acc k"
  by (simp add: parse_param_def Let_def map_of_js_assign del: list.set split: option.splits)

lemma parse_param_numeric:
  "k \<in> set [''limit'', ''skip'', ''depth'', ''since''] \<Longrightarrow>
     map_of (parse_param parseInt (k, v) acc) k =
       (case parseInt v of None \<Rightarrow> map_of acc k | Some n \<Rightarrow> Some n)"
proof -
  assume k: "k \<in> set [''limit'', ''skip'', ''depth'', ''since'']"
  then have "k \<noteq> ''__proto__''" by auto
  with k show ?thesis
    by (simp add: parse_param_def Let_def map_of_js_assign del: list.set split: option.splits)
qed

text \<open>What has been read for a key after the whole query string: the last value that parses.\<close>

lemma fold_parse_param_numeric:
  assumes k: "k \<in> set [''limit'', ''skip'', ''depth'', ''since'']"
  shows "map_of (fold (parse_param parseInt) qs acc) k =
     (if List.map_filter parseInt (map snd (filter (\<lambda>e. fst e = k) qs)) = [] then map_of acc k
      else Some (last (List.map_filter parseInt (map snd (filter (\<lambda>e. fst e = k) qs)))))"
proof (induction qs arbitrary: acc)
  case Nil
  then show ?case by (simp add: List.map_filter_simps)
next
  case (Cons e qs)
  let ?L = "List.map_filter parseInt (map snd (filter (\<lambda>e. fst e = k) qs))"
  have ih: "map_of (fold (parse_param parseInt) qs (parse_param parseInt e acc)) k =
      (if ?L = [] then map_of (parse_param parseInt e acc) k else Some (last ?L))"
    by (rule Cons.IH)
  show ?case
  proof (cases "fst e = k")
    case False
    then have "map_of (parse_param parseInt e acc) k = map_of acc k"
      by (simp add: parse_param_other)
    with ih False show ?thesis by simp
  next
    case True
    then have e: "e = (k, snd e)" by (cases e) simp
    have pk: "map_of (parse_param parseInt e acc) k =
        (case parseInt (snd e) of None \<Rightarrow> map_of acc k | Some n \<Rightarrow> Some n)"
      using parse_param_numeric[OF k, of parseInt "snd e" acc] e by simp
    show ?thesis
    proof (cases "parseInt (snd e)")
      case None
      with ih pk True show ?thesis by (simp add: List.map_filter_simps)
    next
      case (Some n)
      with ih pk True show ?thesis by (simp add: List.map_filter_simps)
    qed
  qed
qed

lemma parse_param_distinct:
  "distinct (map fst acc) \<Longrightarrow> distinct (map fst (parse_param parseInt e acc))"
  by (simp add: parse_param_def Let_def distinct_js_assign del: list.set split: option.splits)

lemma fold_parse_param_distinct:
  "distinct (map fst acc) \<Longrightarrow> distinct (map fst (fold (parse_param parseInt) qs acc))"
  by (induction qs arbitrary: acc) (simp_all add: parse_param_distinct)

text \<open>
  C6, as the code has it. Reading the query string of a resource
  (\<open>parseResourceParams\<close>, then \<open>validateQueryParams\<close>) never fails. For each of
  \<open>limit\<close>, \<open>skip\<close>, \<open>depth\<close> and \<open>since\<close>, take the raw values that the
  query string gives for the key, in their order, and of these the ones that
  \<open>parseInt\<close> reads as a number. If there is none, the key is not in the result: a raw
  value that does not parse is skipped, not passed through. Otherwise the key is kept with
  the number read from the last of them. This holds for every query string and for every
  function in the place of \<open>parseInt\<close>.
\<close>

theorem numeric_params_coerced_or_dropped:
  assumes "k \<in> set [''limit'', ''skip'', ''depth'', ''since'']"
  shows "map_of (validateQueryParams (parseResourceParams parseInt qs)) k =
     (if List.map_filter parseInt (map snd (filter (\<lambda>e. fst e = k) qs)) = [] then None
      else Some (last (List.map_filter parseInt (map snd (filter (\<lambda>e. fst e = k) qs)))))"
proof -
  have d: "distinct (map fst (parseResourceParams parseInt qs))"
    unfolding parseResourceParams_def by (rule fold_parse_param_distinct) simp
  have "k \<noteq> ''__proto__''" using assms by auto
  from validateQueryParams_keeps[OF d this]
  have "map_of (validateQueryParams (parseResourceParams parseInt qs)) k
          = map_of (parseResourceParams parseInt qs) k" .
  also have "\<dots> =
     (if List.map_filter parseInt (map snd (filter (\<lambda>e. fst e = k) qs)) = [] then None
      else Some (last (List.map_filter parseInt (map snd (filter (\<lambda>e. fst e = k) qs)))))"
    unfolding parseResourceParams_def
    using fold_parse_param_numeric[OF assms, of parseInt qs "[]"] by simp
  finally show ?thesis .
qed

text \<open>
  The claim as the specification states it fails: \<open>limit=abc\<close> does not pass through,
  the result is the empty object.
\<close>

theorem non_integer_limit_is_dropped:
  "validateQueryParams (parseResourceParams sample_parseInt [(''limit'', ''abc'')]) = []"
  by code_simp

text \<open>
  A query string that gives \<open>limit\<close> twice and \<open>since\<close> once: \<open>limit\<close> is the
  number read from its one value that parses, and \<open>since\<close> is absent.
\<close>

theorem numeric_params_coerced_or_dropped_witness:
  "map_of (validateQueryParams (parseResourceParams sample_parseInt
       [(''limit'', ''5''), (''since'', ''soon''), (''limit'', ''abc'')])) ''limit''
     = Some (JNum 5)
  \<and> map_of (validateQueryParams (parseResourceParams sample_parseInt
       [(''limit'', ''5''), (''since'', ''soon''), (''limit'', ''abc'')])) ''since''
     = None"
proof -
  have p: "sample_parseInt ''5'' = Some (JNum 5)" "sample_parseInt ''soon'' = None"
      "sample_parseInt ''abc'' = None"
    by code_simp+
  show ?thesis
    using numeric_params_coerced_or_dropped[of "''limit''" sample_parseInt
            "[(''limit'', ''5''), (''since'', ''soon''), (''limit'', ''abc'')]"]
      numeric_params_coerced_or_dropped[of "''since''" sample_parseInt
            "[(''limit'', ''5''), (''since'', ''soon''), (''limit'', ''abc'')]"]
    by (simp add: p List.map_filter_simps)
qed

section \<open>Resource identifiers\<close>

text \<open>
  C7. The path name of \<open>peeringdb://net/123?limit=5\<close> is \<open>/123\<close>: the scheme
  and the host \<open>net\<close> are not part of it. \<open>validateResourceUri\<close> looks for the
  scheme in the first segment of the path name and so refuses the identifier, for every
  registry; the same holds with the scheme written \<open>scheme\<close>.
\<close>

theorem resource_uri_is_refused:
  "validateResourceUri objs ''peeringdb://net/123?limit=5'' = Inl InvalidUriFormat
   \<and> validateResourceUri objs ''scheme://net/123?limit=5'' = Inl InvalidUriFormat"
  by (simp add: validateResourceUri_def parse_url_def cut_def startsWith_def nth_opt_def
        is_alpha_def is_scheme_char_def is_digit_def parse_query_def)

theorem resource_uri_is_refused_witness:
  "validateObjectType PEERINGDB_OBJECTS ''net''
   \<and> validateResourceUri PEERINGDB_OBJECTS ''peeringdb://net/123?limit=5''
       \<noteq> Inr \<lparr> ref_objectType = ''net'', ref_id = Some ''123'',
                ref_params = [(''limit'', JNum 5)] \<rparr>"
proof -
  have "validateObjectType PEERINGDB_OBJECTS ''net''" by code_simp
  with resource_uri_is_refused[of PEERINGDB_OBJECTS] show ?thesis by simp
qed

text \<open>
  An identifier that the function accepts has the scheme as a path segment. Its query
  values stay strings: this function does not read numbers.
\<close>

lemma accepted_uri_keeps_strings:
  "validateResourceUri PEERINGDB_OBJECTS ''x:/peeringdb:/net/123?limit=5''
     = Inr \<lparr> ref_objectType = ''net'', ref_id = Some ''123'',
             ref_params = [(''limit'', JStr ''5'')] \<rparr>"
  by code_simp

section \<open>The rule for \<open>info_type\<close>\<close>

text \<open>
  C8. \<open>info_type\<close> starts with \<open>info_\<close>, and the test for boolean fields stands
  before the tests for the enumerations: the rule is the boolean one, and the branch with
  the nine values is never reached.
\<close>

theorem info_type_is_boolean: "createFieldSchema ''info_type'' isRequired = ZBoolean"
  by (simp add: createFieldSchema_def endsWith_def startsWith_def str_includes_def)

theorem info_type_is_boolean_witness:
  "createFieldSchema ''info_type'' True
     \<noteq> ZEnum [''Content'', ''Cable/DSL/ISP'', ''Enterprise'', ''Educational/Research'',
              ''Government'', ''Non-Profit'', ''Route Server'', ''Network Services'',
              ''Online Gaming'']
   \<and> \<not> zaccepts basic_formats (createFieldSchema ''info_type'' True) (JStr ''Content'')"
  using info_type_is_boolean[of True] by simp

text \<open>Creating a network with one of the nine values fails at \<open>info_type\<close>.\<close>

lemma network_info_type_refused:
  "validateObjectData basic_formats PEERINGDB_OBJECTS ''net''
     [(''name'', JStr ''N''), (''org_id'', JNum 1), (''asn'', JNum 64500),
      (''info_type'', JStr ''Content'')] Create
   = Inl (ValidationFailed ''net'' [''info_type''])"
  by code_simp

section \<open>A bulk run in two batches\<close>

lemma item_result_item: "item (fst (item_result it r)) = it"
  by (simp add: item_result_def split: sum.splits)

lemma item_result_world: "snd (item_result it r) = snd r"
  by (simp add: item_result_def split: sum.splits)

lemma client_world:
  "one_call w (snd (client_post c be ep d w))"
  "one_call w (snd (client_put c be ep i d w))"
  "one_call w (snd (client_delete c be ep i w))"
  by (auto simp: one_call_def client_post_def client_put_def client_delete_def send_def
        split: sum.splits)

lemma process_item_item: "item (fst (process_item fm objs c be T config operation it w)) = it"
  by (cases operation) (simp_all add: process_item_def Let_def item_result_item split: sum.splits)

lemma process_item_world:
  "one_call w (snd (process_item fm objs c be T config operation it w))"
  by (cases operation)
     (auto simp: process_item_def Let_def item_result_world client_world one_call_def[of w w]
        split: sum.splits)

lemma one_callE:
  assumes "one_call w w'"
  obtains t where "w' = w @ t" and "\<forall>e \<in> set t. \<exists>req. e = Call req"
proof (cases "w' = w")
  case True
  then have "w' = w @ []" by simp
  then show ?thesis using that by force
next
  case False
  with assms obtain req where "w' = w @ [Call req]" by (auto simp: one_call_def)
  then show ?thesis using that by force
qed

lemma slice_first: "js_slice [A, B, C] 0 2 = [A, B]"
  by (simp add: js_slice_def rel_index_def to_integer_def)

lemma slice_second: "js_slice [A, B, C] 2 4 = [C]"
  by (simp add: js_slice_def rel_index_def to_integer_def)

text \<open>The loop over three items with batch size 2 ends after two rounds.\<close>

lemma bulk_loop_three:
  assumes a: "P A w0 = (rA, w1)" and b: "P B w1 = (rB, w2)"
    and c: "P C (w2 @ [Sleep 1000]) = (rC, w3)"
  shows "bulk_loop P [A, B, C] 2 0 [] w0 = Some ([rA, rB, rC], w3)"
proof -
  have b1: "process_batch P [A, B] [] w0 = ([rA, rB], w2)"
    by (simp add: a b)
  have b2: "process_batch P [C] [rA, rB] (w2 @ [Sleep 1000]) = ([rA, rB, rC], w3)"
    by (simp add: c)
  have s3: "bulk_loop P [A, B, C] 2 4 [rA, rB, rC] w3 = Some ([rA, rB, rC], w3)"
    by (subst bulk_loop.simps) simp
  have s2: "bulk_loop P [A, B, C] 2 2 [rA, rB] (w2 @ [Sleep 1000]) = Some ([rA, rB, rC], w3)"
    by (subst bulk_loop.simps) (simp add: slice_second b2 s3 del: process_batch.simps)
  show ?thesis
    by (subst bulk_loop.simps) (simp add: slice_first b1 s2 del: process_batch.simps)
qed

text \<open>
  C4. A bulk run over the items A, B, C with batch size 2, for any object type, operation,
  client and backend, where the step for A succeeds, the step for B then fails, and the
  step for C, taken after the pause, succeeds. The run returns: three results in the order
  of the items, two successes and one failure. B's failure stops neither its batch nor the
  next one. What the run adds to the trace is the requests of A and B, one pause of 1000
  milliseconds, and the requests of C; nothing comes after them, so there is no pause after
  the last batch.
\<close>

theorem bulk_three_items_batch_two:
  assumes a: "process_item fm objs c be T config operation A w0 = (rA, w1)"
    and b: "process_item fm objs c be T config operation B w1 = (rB, w2)"
    and c: "process_item fm objs c be T config operation C (w2 @ [Sleep 1000]) = (rC, w3)"
    and ok: "success rA" "\<not> success rB" "success rC"
  shows "bulk_handler fm objs c be T config
           \<lparr> bulk_operation = operation, bulk_items = [A, B, C], batch_size = 2 \<rparr> w0
         = Some (BulkDone \<lparr> successful = 2, failed = 1, results = [rA, rB, rC] \<rparr>, w3)
       \<and> map item [rA, rB, rC] = [A, B, C]
       \<and> (\<exists>tA tB tC. w3 = w0 @ tA @ tB @ [Sleep 1000] @ tC
             \<and> (\<forall>e \<in> set (tA @ tB @ tC). \<exists>req. e = Call req))"
proof -
  have loop: "bulk_loop (process_item fm objs c be T config operation) [A, B, C] 2 0 [] w0
                = Some ([rA, rB, rC], w3)"
    by (rule bulk_loop_three[OF a b c])
  have h: "bulk_handler fm objs c be T config
           \<lparr> bulk_operation = operation, bulk_items = [A, B, C], batch_size = 2 \<rparr> w0
         = Some (BulkDone \<lparr> successful = 2, failed = 1, results = [rA, rB, rC] \<rparr>, w3)"
    by (simp add: bulk_handler_def loop ok)
  have "item rA = A"
    using process_item_item[of fm objs c be T config operation A w0] by (simp add: a)
  moreover have "item rB = B"
    using process_item_item[of fm objs c be T config operation B w1] by (simp add: b)
  moreover have "item rC = C"
    using process_item_item[of fm objs c be T config operation C "w2 @ [Sleep 1000]"]
    by (simp add: c)
  ultimately have items: "map item [rA, rB, rC] = [A, B, C]" by simp
  have wa: "one_call w0 w1"
    using process_item_world[of w0 fm objs c be T config operation A] by (simp add: a)
  have wb: "one_call w1 w2"
    using process_item_world[of w1 fm objs c be T config operation B] by (simp add: b)
  have wc: "one_call (w2 @ [Sleep 1000]) w3"
    using process_item_world[of "w2 @ [Sleep 1000]" fm objs c be T config operation C]
    by (simp add: c)
  from wa obtain tA where tA: "w1 = w0 @ tA" "\<forall>e \<in> set tA. \<exists>req. e = Call req"
    by (rule one_callE)
  from wb obtain tB where tB: "w2 = w1 @ tB" "\<forall>e \<in> set tB. \<exists>req. e = Call req"
    by (rule one_callE)
  from wc obtain tC where
    tC: "w3 = (w2 @ [Sleep 1000]) @ tC" "\<forall>e \<in> set tC. \<exists>req. e = Call req"
    by (rule one_callE)
  have w3: "w3 = w0 @ tA @ tB @ [Sleep 1000] @ tC"
    by (simp add: tC(1) tB(1) tA(1))
  have calls: "\<forall>e \<in> set (tA @ tB @ tC). \<exists>req. e = Call req"
    using tA(2) tB(2) tC(2) by auto
  from w3 calls have "\<exists>tA tB tC. w3 = w0 @ tA @ tB @ [Sleep 1000] @ tC
             \<and> (\<forall>e \<in> set (tA @ tB @ tC). \<exists>req. e = Call req)"
    by blast
  with h items show ?thesis by simp
qed

text \<open>
  Creating three organizations, the second without its required name: two requests are
  sent, with the pause between them.
\<close>

theorem bulk_three_items_batch_two_witness:
  "\<exists>config. map_of PEERINGDB_OBJECTS ''org'' = Some config \<and>
     bulk_handler basic_formats PEERINGDB_OBJECTS keyed_client null_backend ''org'' config
       \<lparr> bulk_operation = BulkCreate,
         bulk_items = [[(''name'', JStr ''a'')], [], [(''name'', JStr ''c'')]],
         batch_size = 2 \<rparr> []
     = Some (BulkDone \<lparr> successful = 2, failed = 1,
          results =
            [\<lparr> success = True, item = [(''name'', JStr ''a'')], response = JNull,
                item_error = None \<rparr>,
             \<lparr> success = False, item = [], response = JUndefined,
                item_error = Some (ValidationFailed ''org'' [''name'']) \<rparr>,
             \<lparr> success = True, item = [(''name'', JStr ''c'')], response = JNull,
                item_error = None \<rparr>] \<rparr>,
        [Call (HttpPost ''org'' [(''name'', JStr ''a'')]), Sleep 1000,
         Call (HttpPost ''org'' [(''name'', JStr ''c'')])])"
proof -
  obtain config where m: "map_of PEERINGDB_OBJECTS ''org'' = Some config"
      and ep: "endpoint config = ''org''"
    by (simp add: PEERINGDB_OBJECTS_def)
  have va: "validateObjectData basic_formats PEERINGDB_OBJECTS ''org'' [(''name'', JStr ''a'')] Create
              = Inr [(''name'', JStr ''a'')]"
    by code_simp
  have vb: "validateObjectData basic_formats PEERINGDB_OBJECTS ''org'' [] Create
              = Inl (ValidationFailed ''org'' [''name''])"
    by code_simp
  have vc: "validateObjectData basic_formats PEERINGDB_OBJECTS ''org'' [(''name'', JStr ''c'')] Create
              = Inr [(''name'', JStr ''c'')]"
    by code_simp
  have post: "client_post keyed_client null_backend ''org'' d w
                = (Inr JNull, w @ [Call (HttpPost ''org'' d)])" for d w
    by (simp add: client_post_def validateApiKey_def hasApiKey_def keyed_client_def send_def
          null_backend_def)
  have a: "process_item basic_formats PEERINGDB_OBJECTS keyed_client null_backend ''org'' config
             BulkCreate [(''name'', JStr ''a'')] []
           = (\<lparr> success = True, item = [(''name'', JStr ''a'')], response = JNull,
                 item_error = None \<rparr>, [Call (HttpPost ''org'' [(''name'', JStr ''a'')])])"
    by (simp add: process_item_def va ep post item_result_def)
  have b: "process_item basic_formats PEERINGDB_OBJECTS keyed_client null_backend ''org'' config
             BulkCreate [] [Call (HttpPost ''org'' [(''name'', JStr ''a'')])]
           = (\<lparr> success = False, item = [], response = JUndefined,
                 item_error = Some (ValidationFailed ''org'' [''name'']) \<rparr>,
              [Call (HttpPost ''org'' [(''name'', JStr ''a'')])])"
    by (simp add: process_item_def vb item_result_def)
  have c: "process_item basic_formats PEERINGDB_OBJECTS keyed_client null_backend ''org'' config
             BulkCreate [(''name'', JStr ''c'')]
             ([Call (HttpPost ''org'' [(''name'', JStr ''a'')])] @ [Sleep 1000])
           = (\<lparr> success = True, item = [(''name'', JStr ''c'')], response = JNull,
                 item_error = None \<rparr>,
              [Call (HttpPost ''org'' [(''name'', JStr ''a'')]), Sleep 1000,
               Call (HttpPost ''org'' [(''name'', JStr ''c'')])])"
    by (simp add: process_item_def vc ep post item_result_def)
  from bulk_three_items_batch_two[OF a b c] m show ?thesis by simp
qed

section \<open>The delete handler\<close>



end
